theory Spec2Isabelle
  imports Main
begin

section \<open>Aurox Clarity controller: the HID command/response layer\<close>

text \<open>
  A shallow embedding of \<^verbatim>\<open>src/aurox_clarity/controller.py\<close>. Python integers are
  \<^typ>\<open>int\<close>, Python lists of integers are \<^typ>\<open>int list\<close>, a raised exception is the
  left injection of a sum, and a call that never returns (it waits for a lock that
  nobody releases) is \<^const>\<open>None\<close>.
\<close>

subsection \<open>Protocol constants\<close>

definition SLEEP :: int where "SLEEP = 0x7F"
definition RUN :: int where "RUN = 0x0F"

definition GETVERSION :: int where "GETVERSION = 0x00"
definition GETONOFF :: int where "GETONOFF = 0x12"
definition GETDOOR :: int where "GETDOOR = 0x13"
definition GETDISK :: int where "GETDISK = 0x14"
definition GETFILT :: int where "GETFILT = 0x15"
definition GETCAL :: int where "GETCAL = 0x16"
definition GETSERIAL :: int where "GETSERIAL = 0x19"
definition FULLSTAT :: int where "FULLSTAT = 0x1F"

definition SETONOFF :: int where "SETONOFF = 0x21"
definition SETDISK :: int where "SETDISK = 0x23"
definition SETFILT :: int where "SETFILT = 0x24"
definition SETCAL :: int where "SETCAL = 0x25"

subsection \<open>Python exceptions and list operations\<close>

text \<open>
  \<open>IndexError\<close> is raised by an out-of-range list index, \<open>AttributeError\<close> by reading
  an attribute the object does not have. \<open>HidError msg\<close> stands for any exception
  raised inside the external \<^verbatim>\<open>hid\<close> library. The module defines no exception
  class of its own.
\<close>

datatype py_error = IndexError | AttributeError | HidError string

definition bind_py :: "py_error + 'a \<Rightarrow> ('a \<Rightarrow> py_error + 'b) \<Rightarrow> py_error + 'b" where
  "bind_py m f = (case m of Inl e \<Rightarrow> Inl e | Inr x \<Rightarrow> f x)"

text \<open>\<^verbatim>\<open>[v] * n\<close>: the empty list when \<open>n \<le> 0\<close>.\<close>

definition py_repeat :: "int \<Rightarrow> int \<Rightarrow> int list" where
  "py_repeat v n = replicate (nat n) v"

text \<open>
  \<^verbatim>\<open>xs[i]\<close> and \<^verbatim>\<open>xs[i] = v\<close>: an index below zero counts from the end, and an
  index outside \<open>-len .. len-1\<close> raises \<open>IndexError\<close>.
\<close>

definition py_position :: "'a list \<Rightarrow> int \<Rightarrow> nat option" where
  "py_position xs i =
     (if 0 \<le> i \<and> i < int (length xs) then Some (nat i)
      else if i < 0 \<and> - int (length xs) \<le> i then Some (nat (int (length xs) + i))
      else None)"

definition py_getitem :: "'a list \<Rightarrow> int \<Rightarrow> py_error + 'a" where
  "py_getitem xs i = (case py_position xs i of None \<Rightarrow> Inl IndexError | Some k \<Rightarrow> Inr (xs ! k))"

definition py_setitem :: "'a list \<Rightarrow> int \<Rightarrow> 'a \<Rightarrow> py_error + 'a list" where
  "py_setitem xs i v =
     (case py_position xs i of None \<Rightarrow> Inl IndexError | Some k \<Rightarrow> Inr (xs[k := v]))"

subsection \<open>The external HID handle\<close>

text \<open>
  The \<^verbatim>\<open>hid\<close> library is not part of the repository, so the handle is a parameter of
  the model. A handle is the list of calls made on it so far, oldest first; what a call
  returns or raises is an arbitrary function of that list (the call itself included),
  given by a \<open>hid_env\<close>. Every deterministic device is such a function, and the theorems
  below hold for all of them.
\<close>

datatype hid_call = Write "int list" | Read int int | Close

type_synonym hid_device = "hid_call list"

record hid_env =
  on_write :: "hid_call list \<Rightarrow> py_error + int"
  on_read :: "hid_call list \<Rightarrow> py_error + int list"

definition hid_write :: "hid_env \<Rightarrow> hid_device \<Rightarrow> int list \<Rightarrow> (py_error + int) \<times> hid_device" where
  "hid_write env h buffer = (on_write env (h @ [Write buffer]), h @ [Write buffer])"

definition hid_read :: "hid_env \<Rightarrow> hid_device \<Rightarrow> int \<Rightarrow> int \<Rightarrow> (py_error + int list) \<times> hid_device" where
  "hid_read env h maxLength timeoutMs =
     (on_read env (h @ [Read maxLength timeoutMs]), h @ [Read maxLength timeoutMs])"

definition hid_close :: "hid_device \<Rightarrow> hid_device" where
  "hid_close h = h @ [Close]"

subsection \<open>The Controller object\<close>

text \<open>
  The two attributes \<^verbatim>\<open>_hiddevice\<close> and \<^verbatim>\<open>_lock\<close>; \<^const>\<open>None\<close> is an attribute that
  was never assigned. The lock is \<open>True\<close> while held.
\<close>

record controller =
  hiddevice :: "hid_device option"
  lock :: "bool option"

type_synonym 'a outcome = "((py_error + 'a) \<times> controller) option"

text \<open>Lines 138 to 140: the outbound record.\<close>

definition sendCommand_buffer :: "int \<Rightarrow> int \<Rightarrow> int \<Rightarrow> py_error + int list" where
  "sendCommand_buffer command param maxLength =
     bind_py (Inr (py_repeat 0x00 maxLength)) (\<lambda>buffer.
     bind_py (py_setitem buffer 1 command) (\<lambda>buffer.
     py_setitem buffer 2 param))"

text \<open>
  Lines 138 to 143, run with the lock held. The value returned by \<^verbatim>\<open>write\<close> is bound
  to \<^verbatim>\<open>result\<close> and never read.
\<close>

definition sendCommand_locked ::
  "hid_env \<Rightarrow> controller \<Rightarrow> int \<Rightarrow> int \<Rightarrow> int \<Rightarrow> int \<Rightarrow> (py_error + int list) \<times> controller" where
  "sendCommand_locked env self command param maxLength timeoutMs =
     (case sendCommand_buffer command param maxLength of
        Inl e \<Rightarrow> (Inl e, self)
      | Inr buffer \<Rightarrow>
          (case hiddevice self of
             None \<Rightarrow> (Inl AttributeError, self)
           | Some h \<Rightarrow>
               (case hid_write env h buffer of
                  (Inl e, h1) \<Rightarrow> (Inl e, self\<lparr>hiddevice := Some h1\<rparr>)
                | (Inr result, h1) \<Rightarrow>
                    (case hid_read env h1 maxLength timeoutMs of
                       (answer, h2) \<Rightarrow> (answer, self\<lparr>hiddevice := Some h2\<rparr>)))))"

text \<open>
  \<^verbatim>\<open>with self._lock:\<close> acquires the lock, runs the body and releases the lock on every
  exit, a raised exception included. \<^verbatim>\<open>threading.Lock\<close> is not reentrant: entered
  while the lock is held, the call waits.
\<close>

definition sendCommand ::
  "hid_env \<Rightarrow> controller \<Rightarrow> int \<Rightarrow> int \<Rightarrow> int \<Rightarrow> int \<Rightarrow> (int list) outcome" where
  "sendCommand env self command param maxLength timeoutMs =
     (case lock self of
        None \<Rightarrow> Some (Inl AttributeError, self)
      | Some True \<Rightarrow> None
      | Some False \<Rightarrow>
          (case sendCommand_locked env (self\<lparr>lock := Some True\<rparr>) command param maxLength timeoutMs of
             (r, self') \<Rightarrow> Some (r, self'\<lparr>lock := Some False\<rparr>)))"

text \<open>
  An accessor calls \<open>sendCommand\<close> and then evaluates its \<^verbatim>\<open>return\<close> expression on
  the answer; an exception of either step propagates, and a call that waits never
  reaches the second step.
\<close>

definition then_py :: "'a outcome \<Rightarrow> ('a \<Rightarrow> py_error + 'b) \<Rightarrow> 'b outcome" where
  "then_py m f = (case m of None \<Rightarrow> None | Some (r, self') \<Rightarrow> Some (bind_py r f, self'))"

text \<open>
  \<^verbatim>\<open>__del__\<close>: closes the handle when the attribute exists. It keeps the attribute and
  records nothing about the handle being closed.
\<close>

definition Controller_del :: "controller \<Rightarrow> controller" where
  "Controller_del self =
     (case hiddevice self of None \<Rightarrow> self | Some h \<Rightarrow> self\<lparr>hiddevice := Some (hid_close h)\<rparr>)"

text \<open>The set accessors: the answer is dropped and the method returns \<^verbatim>\<open>None\<close>.\<close>

definition switchOn :: "hid_env \<Rightarrow> controller \<Rightarrow> unit outcome" where
  "switchOn env self = then_py (sendCommand env self SETONOFF RUN 16 100) (\<lambda>_. Inr ())"

definition switchOff :: "hid_env \<Rightarrow> controller \<Rightarrow> unit outcome" where
  "switchOff env self = then_py (sendCommand env self SETONOFF SLEEP 16 100) (\<lambda>_. Inr ())"

definition setDiskPosition :: "hid_env \<Rightarrow> controller \<Rightarrow> int \<Rightarrow> unit outcome" where
  "setDiskPosition env self newDiskPosition =
     then_py (sendCommand env self SETDISK newDiskPosition 16 100) (\<lambda>_. Inr ())"

definition setFilterPosition :: "hid_env \<Rightarrow> controller \<Rightarrow> int \<Rightarrow> unit outcome" where
  "setFilterPosition env self filterPosition =
     then_py (sendCommand env self SETFILT filterPosition 16 100) (\<lambda>_. Inr ())"

definition setCalibrationLED :: "hid_env \<Rightarrow> controller \<Rightarrow> int \<Rightarrow> unit outcome" where
  "setCalibrationLED env self calLED =
     then_py (sendCommand env self SETCAL calLED 16 100) (\<lambda>_. Inr ())"

text \<open>The get accessors returning \<^verbatim>\<open>res[1]\<close>.\<close>

definition getOnOff :: "hid_env \<Rightarrow> controller \<Rightarrow> int outcome" where
  "getOnOff env self = then_py (sendCommand env self GETONOFF 0 16 100) (\<lambda>res. py_getitem res 1)"

definition getDiskPosition :: "hid_env \<Rightarrow> controller \<Rightarrow> int outcome" where
  "getDiskPosition env self =
     then_py (sendCommand env self GETDISK 0 16 100) (\<lambda>res. py_getitem res 1)"

definition getFilterPosition :: "hid_env \<Rightarrow> controller \<Rightarrow> int outcome" where
  "getFilterPosition env self =
     then_py (sendCommand env self GETFILT 0 16 100) (\<lambda>res. py_getitem res 1)"

definition getCalibrationLED :: "hid_env \<Rightarrow> controller \<Rightarrow> int outcome" where
  "getCalibrationLED env self =
     then_py (sendCommand env self GETCAL 0 16 100) (\<lambda>res. py_getitem res 1)"

definition getDoor :: "hid_env \<Rightarrow> controller \<Rightarrow> int outcome" where
  "getDoor env self = then_py (sendCommand env self GETDOOR 0 16 100) (\<lambda>res. py_getitem res 1)"

text \<open>
  \<open>getSerialNumber\<close>: the sum is evaluated left to right, so \<^verbatim>\<open>res[4]\<close> is the first
  index taken. \<^verbatim>\<open>//\<close> and \<^verbatim>\<open>%\<close> round towards minus infinity, as \<open>div\<close> and \<open>mod\<close> on
  \<^typ>\<open>int\<close> do.
\<close>

definition getSerialNumber :: "hid_env \<Rightarrow> controller \<Rightarrow> int outcome" where
  "getSerialNumber env self =
     then_py (sendCommand env self GETSERIAL 0 16 100) (\<lambda>res.
       bind_py (py_getitem res 4) (\<lambda>a.
       bind_py (py_getitem res 4) (\<lambda>b.
       bind_py (py_getitem res 3) (\<lambda>c.
       bind_py (py_getitem res 3) (\<lambda>d.
       bind_py (py_getitem res 2) (\<lambda>e.
       bind_py (py_getitem res 2) (\<lambda>f.
       bind_py (py_getitem res 1) (\<lambda>g.
       bind_py (py_getitem res 1) (\<lambda>h.
         Inr ((a div 16) * 10000000
            + (b mod 16) * 1000000
            + (c div 16) * 100000
            + (d mod 16) * 10000
            + (e div 16) * 1000
            + (f mod 16) * 100
            + (g div 16) * 10
            + (h mod 16)))))))))))"

text \<open>
  \<open>getFullStat\<close> returns a Python list of a triple and five integers; the model is the
  tuple of the same six components in the same order.
\<close>

type_synonym full_stat = "(int \<times> int \<times> int) \<times> int \<times> int \<times> int \<times> int \<times> int"

definition getFullStat :: "hid_env \<Rightarrow> controller \<Rightarrow> full_stat outcome" where
  "getFullStat env self =
     then_py (sendCommand env self FULLSTAT 0 16 100) (\<lambda>res.
       bind_py (py_getitem res 1) (\<lambda>v1.
       bind_py (py_getitem res 2) (\<lambda>v2.
       bind_py (py_getitem res 3) (\<lambda>v3.
       bind_py (py_getitem res 4) (\<lambda>onOff.
       bind_py (py_getitem res 5) (\<lambda>door.
       bind_py (py_getitem res 6) (\<lambda>disk.
       bind_py (py_getitem res 7) (\<lambda>filt.
       bind_py (py_getitem res 8) (\<lambda>cal.
         Inr ((v1, v2, v3), onOff, door, disk, filt, cal))))))))))"

definition getVersion :: "hid_env \<Rightarrow> controller \<Rightarrow> (int \<times> int \<times> int) outcome" where
  "getVersion env self =
     then_py (sendCommand env self GETVERSION 0 16 100) (\<lambda>res.
       bind_py (py_getitem res 1) (\<lambda>v1.
       bind_py (py_getitem res 2) (\<lambda>v2.
       bind_py (py_getitem res 3) (\<lambda>v3.
         Inr (v1, v2, v3)))))"

subsection \<open>The serial number as the specification words it\<close>

text \<open>
  Four packed BCD bytes at offsets 1 to 4, least significant byte first, the high
  nibble of a byte being its more significant digit: \<open>spec_bcd_digits\<close> lists the eight
  digits from the least significant one, and \<open>spec_decimal\<close> is the sum of
  \<open>digit i * 10 ^ i\<close>.
\<close>

definition spec_bcd_digits :: "int list \<Rightarrow> int list" where
  "spec_bcd_digits res = concat (map (\<lambda>b. [b mod 16, b div 16]) (take 4 (drop 1 res)))"

fun spec_decimal :: "int list \<Rightarrow> int" where
  "spec_decimal [] = 0"
| "spec_decimal (d # ds) = d + 10 * spec_decimal ds"

subsection \<open>Concrete handles for the examples\<close>

text \<open>
  A handle that, like the \<^verbatim>\<open>hid\<close> library, refuses every call made after \<open>Close\<close>, and
  otherwise answers \<open>write\<close> with \<open>w\<close> and \<open>read\<close> with \<open>r\<close>.
\<close>

definition script_env :: "(py_error + int) \<Rightarrow> (py_error + int list) \<Rightarrow> hid_env" where
  "script_env w r =
     \<lparr>on_write = (\<lambda>h. if Close \<in> set h then Inl (HidError ''not open'') else w),
      on_read = (\<lambda>h. if Close \<in> set h then Inl (HidError ''not open'') else r)\<rparr>"

text \<open>A Controller whose handle has just been opened and whose lock is free.\<close>

definition opened :: controller where
  "opened = \<lparr>hiddevice = Some [], lock = Some False\<rparr>"

text \<open>The 16-byte record of a command and its parameter.\<close>

definition record16 :: "int \<Rightarrow> int \<Rightarrow> int list" where
  "record16 command param = [0, command, param, 0, 0, 0, 0, 0, 0, 0, 0, 0, 0, 0, 0, 0]"


section \<open>Properties\<close>

lemma py_position_nat [simp]:
  "py_position xs (int k) = (if k < length xs then Some k else None)"
  by (simp add: py_position_def)

lemma py_position_1 [simp]: "py_position xs 1 = (if 1 < length xs then Some 1 else None)"
  using py_position_nat [of xs 1] by simp

lemma py_position_numeral [simp]:
  "py_position xs (numeral k) = (if numeral k < length xs then Some (numeral k) else None)"
  using py_position_nat [of xs "numeral k"] by simp

lemma sendCommand_buffer_eq:
  "sendCommand_buffer command param maxLength =
     (if 3 \<le> maxLength then Inr ((replicate (nat maxLength) 0)[1 := command, 2 := param])
      else Inl IndexError)"
  by (auto simp: sendCommand_buffer_def bind_py_def py_repeat_def py_setitem_def)

lemma record16_eq: "(replicate 16 0)[1 := command, 2 := param] = record16 command param"
  by (simp add: record16_def eval_nat_numeral)

lemma sendCommand_buffer_16: "sendCommand_buffer command param 16 = Inr (record16 command param)"
  using record16_eq [of command param] by (simp add: sendCommand_buffer_eq)

lemma relock:
  "lock self = Some False \<Longrightarrow> self\<lparr>lock := Some True, hiddevice := d, lock := Some False\<rparr> = self\<lparr>hiddevice := d\<rparr>"
  "lock self = Some False \<Longrightarrow> self\<lparr>lock := Some True, lock := Some False\<rparr> = self"
  by (cases self; simp)+

lemma sendCommand_unlocked:
  assumes "lock self = Some False" and "hiddevice self = Some h"
    and "sendCommand_buffer command param maxLength = Inr buffer"
  shows "sendCommand env self command param maxLength timeoutMs =
     (case on_write env (h @ [Write buffer]) of
        Inl e \<Rightarrow> Some (Inl e, self\<lparr>hiddevice := Some (h @ [Write buffer])\<rparr>)
      | Inr k \<Rightarrow> Some (on_read env (h @ [Write buffer, Read maxLength timeoutMs]),
                      self\<lparr>hiddevice := Some (h @ [Write buffer, Read maxLength timeoutMs])\<rparr>))"
  using assms
  by (simp add: sendCommand_def sendCommand_locked_def hid_write_def hid_read_def relock
      split: sum.splits)

lemma sendCommand_bad_length:
  assumes "lock self = Some False" and "sendCommand_buffer command param maxLength = Inl e"
  shows "sendCommand env self command param maxLength timeoutMs = Some (Inl e, self)"
  using assms by (simp add: sendCommand_def sendCommand_locked_def relock)

lemma sendCommand_script_opened:
  "sendCommand (script_env (Inr k) r) opened command param 16 100 =
     Some (r, \<lparr>hiddevice = Some [Write (record16 command param), Read 16 100], lock = Some False\<rparr>)"
proof -
  have "sendCommand (script_env (Inr k) r) opened command param 16 100 =
     (case on_write (script_env (Inr k) r) ([] @ [Write (record16 command param)]) of
        Inl e \<Rightarrow> Some (Inl e, opened\<lparr>hiddevice := Some ([] @ [Write (record16 command param)])\<rparr>)
      | Inr k' \<Rightarrow> Some (on_read (script_env (Inr k) r) ([] @ [Write (record16 command param), Read 16 100]),
                      opened\<lparr>hiddevice := Some ([] @ [Write (record16 command param), Read 16 100])\<rparr>))"
    by (rule sendCommand_unlocked) (simp_all add: opened_def sendCommand_buffer_16)
  then show ?thesis by (simp add: script_env_def opened_def)
qed

lemma at_least_5:
  "5 \<le> length (res :: int list) \<Longrightarrow> \<exists>a b c d e rest. res = a # b # c # d # e # rest"
  by (cases res; simp; cases "tl res"; simp; cases "tl (tl res)"; simp;
      cases "tl (tl (tl res))"; simp; cases "tl (tl (tl (tl res)))"; simp)

lemma spec_decimal_digit:
  assumes "\<forall>d \<in> set ds. 0 \<le> d \<and> d < 10" and "i < length ds"
  shows "spec_decimal ds div 10 ^ i mod 10 = ds ! i"
  using assms
proof (induction ds arbitrary: i)
  case Nil
  then show ?case by simp
next
  case (Cons d ds)
  from Cons.prems have d: "0 \<le> d" "d < 10" by simp_all
  show ?case
  proof (cases i)
    case 0
    with d show ?thesis by simp
  next
    case (Suc j)
    from d have "(d + 10 * spec_decimal ds) div 10 = spec_decimal ds" by simp
    then have "(d + 10 * spec_decimal ds) div (10 * 10 ^ j) = spec_decimal ds div 10 ^ j"
      by (simp add: zdiv_zmult2_eq)
    moreover from Cons.prems Suc have "spec_decimal ds div 10 ^ j mod 10 = ds ! j"
      by (intro Cons.IH) simp_all
    ultimately show ?thesis using Suc by simp
  qed
qed

lemma py_getitem_1: "py_getitem xs 1 = (if 1 < length xs then Inr (xs ! 1) else Inl IndexError)"
  by (simp add: py_getitem_def)

lemma py_getitem_numeral:
  "py_getitem xs (numeral k) =
     (if numeral k < length xs then Inr (xs ! numeral k) else Inl IndexError)"
  by (simp add: py_getitem_def)

lemma spec_bcd_digits_nth:
  assumes "5 \<le> length res"
  shows "spec_bcd_digits res =
               [res ! 1 mod 16, res ! 1 div 16, res ! 2 mod 16, res ! 2 div 16,
                res ! 3 mod 16, res ! 3 div 16, res ! 4 mod 16, res ! 4 div 16]"
proof -
  from at_least_5 [OF assms]
  obtain a b c d e rest where res: "res = a # b # c # d # e # rest" by blast
  show ?thesis by (simp add: res spec_bcd_digits_def)
qed

text \<open>
  C1. For every command, parameter and length of at least 3, the record built by
  \<open>sendCommand\<close> has exactly the requested length, byte 0 is zero, byte 1 is the command,
  byte 2 is the parameter and every later byte is zero; and this record is what
  \<open>sendCommand\<close> hands to the handle's \<open>write\<close>.
\<close>

theorem sendCommand_buffer_layout:
  assumes "3 \<le> maxLength"
  shows "\<exists>buffer. sendCommand_buffer command param maxLength = Inr buffer
           \<and> int (length buffer) = maxLength
           \<and> buffer ! 0 = 0 \<and> buffer ! 1 = command \<and> buffer ! 2 = param
           \<and> (\<forall>i. 3 \<le> i \<and> i < length buffer \<longrightarrow> buffer ! i = 0)
           \<and> (\<forall>env h. \<exists>d.
                 map_option (hiddevice \<circ> snd)
                   (sendCommand env \<lparr>hiddevice = Some h, lock = Some False\<rparr>
                      command param maxLength timeoutMs) = Some (Some (h @ Write buffer # d)))"
  using assms
  by (auto simp: sendCommand_buffer_eq sendCommand_def sendCommand_locked_def hid_write_def
      hid_read_def nth_list_update split: sum.splits prod.splits)

theorem sendCommand_buffer_layout_witness:
  "(3::int) \<le> 16
   \<and> (\<exists>buffer. sendCommand_buffer 0x21 0x0F 16 = Inr buffer
         \<and> buffer = [0, 0x21, 0x0F, 0, 0, 0, 0, 0, 0, 0, 0, 0, 0, 0, 0, 0]
         \<and> int (length buffer) = 16
         \<and> buffer ! 0 = 0 \<and> buffer ! 1 = 0x21 \<and> buffer ! 2 = 0x0F
         \<and> (\<forall>i. 3 \<le> i \<and> i < length buffer \<longrightarrow> buffer ! i = 0))"
proof -
  have len: "(3::int) \<le> 16" by simp
  from sendCommand_buffer_layout [OF len, of "0x21" "0x0F" 100]
  obtain buffer where b: "sendCommand_buffer 0x21 0x0F 16 = Inr buffer"
    and props: "int (length buffer) = 16" "buffer ! 0 = 0" "buffer ! 1 = 0x21" "buffer ! 2 = 0x0F"
      "\<forall>i. 3 \<le> i \<and> i < length buffer \<longrightarrow> buffer ! i = 0"
    by blast
  from b have "buffer = [0, 0x21, 0x0F, 0, 0, 0, 0, 0, 0, 0, 0, 0, 0, 0, 0, 0]"
    by (simp add: sendCommand_buffer_16 record16_def)
  with len b props show ?thesis by blast
qed

text \<open>
  C2. When the transaction of \<open>getSerialNumber\<close> returns a response of at least 5 bytes,
  the method returns the decimal integer whose digits, from the least significant one,
  are the low and high nibbles of the bytes at offsets 1, 2, 3 and 4. When the eight
  nibbles are decimal digits they are the decimal digits of the result. The bytes
  \<open>_, 0x34, 0x12, 0, 0\<close> give 1234 and \<open>_, 0, 0, 0, 0\<close> give 0.
\<close>

theorem getSerialNumber_bcd:
  assumes "sendCommand env self GETSERIAL 0 16 100 = Some (Inr res, self')"
    and "5 \<le> length res"
  shows "\<exists>n. getSerialNumber env self = Some (Inr n, self')
           \<and> n = spec_decimal (spec_bcd_digits res)
           \<and> spec_bcd_digits res =
               [res ! 1 mod 16, res ! 1 div 16, res ! 2 mod 16, res ! 2 div 16,
                res ! 3 mod 16, res ! 3 div 16, res ! 4 mod 16, res ! 4 div 16]
           \<and> ((\<forall>d \<in> set (spec_bcd_digits res). 0 \<le> d \<and> d < 10) \<longrightarrow>
                (\<forall>i < 8. n div 10 ^ i mod 10 = spec_bcd_digits res ! i))
           \<and> ((\<exists>b0 rest. res = b0 # 0x34 # 0x12 # 0x00 # 0x00 # rest) \<longrightarrow> n = 1234)
           \<and> ((\<exists>b0 rest. res = b0 # 0x00 # 0x00 # 0x00 # 0x00 # rest) \<longrightarrow> n = 0)"
proof -
  define n where "n = spec_decimal (spec_bcd_digits res)"
  note digits = spec_bcd_digits_nth [OF assms(2)]
  from assms(2) have lens: "1 < length res" "2 < length res" "3 < length res" "4 < length res"
    by simp_all
  have run: "getSerialNumber env self = Some (Inr n, self')"
    using lens
    by (simp add: getSerialNumber_def assms(1) then_py_def bind_py_def py_getitem_1
        py_getitem_numeral n_def digits)
  have len: "length (spec_bcd_digits res) = 8"
    by (simp add: digits)
  have nth: "(\<forall>d \<in> set (spec_bcd_digits res). 0 \<le> d \<and> d < 10) \<longrightarrow>
      (\<forall>i < 8. n div 10 ^ i mod 10 = spec_bcd_digits res ! i)"
    unfolding n_def using spec_decimal_digit [of "spec_bcd_digits res"] len by simp
  have ex1: "(\<exists>b0 rest. res = b0 # 0x34 # 0x12 # 0x00 # 0x00 # rest) \<longrightarrow> n = 1234"
    by (auto simp: n_def spec_bcd_digits_def)
  have ex2: "(\<exists>b0 rest. res = b0 # 0x00 # 0x00 # 0x00 # 0x00 # rest) \<longrightarrow> n = 0"
    by (auto simp: n_def spec_bcd_digits_def)
  from run digits nth ex1 ex2 n_def show ?thesis by blast
qed

theorem getSerialNumber_bcd_witness:
  "sendCommand (script_env (Inr 16) (Inr [0, 0x34, 0x12, 0x00, 0x00])) opened GETSERIAL 0 16 100 =
     Some (Inr [0, 0x34, 0x12, 0x00, 0x00],
           \<lparr>hiddevice = Some [Write (record16 0x19 0), Read 16 100], lock = Some False\<rparr>)
   \<and> 5 \<le> length [0, 0x34, 0x12, 0x00, 0x00 :: int]
   \<and> getSerialNumber (script_env (Inr 16) (Inr [0, 0x34, 0x12, 0x00, 0x00])) opened =
       Some (Inr 1234, \<lparr>hiddevice = Some [Write (record16 0x19 0), Read 16 100], lock = Some False\<rparr>)"
proof -
  have tx: "sendCommand (script_env (Inr 16) (Inr [0, 0x34, 0x12, 0x00, 0x00])) opened GETSERIAL 0 16 100 =
     Some (Inr [0, 0x34, 0x12, 0x00, 0x00],
           \<lparr>hiddevice = Some [Write (record16 0x19 0), Read 16 100], lock = Some False\<rparr>)"
    by (simp add: sendCommand_script_opened GETSERIAL_def)
  have len: "5 \<le> length [0, 0x34, 0x12, 0x00, 0x00 :: int]" by simp
  from getSerialNumber_bcd [OF tx len]
  obtain n where run: "getSerialNumber (script_env (Inr 16) (Inr [0, 0x34, 0x12, 0x00, 0x00])) opened =
       Some (Inr n, \<lparr>hiddevice = Some [Write (record16 0x19 0), Read 16 100], lock = Some False\<rparr>)"
    and ex: "(\<exists>b0 rest. [0, 0x34, 0x12, 0x00, 0x00 :: int] = b0 # 0x34 # 0x12 # 0x00 # 0x00 # rest) \<longrightarrow> n = 1234"
    by blast
  from ex have "n = 1234" by simp
  with run tx len show ?thesis by simp
qed

text \<open>
  C3. When the transaction of \<open>getFullStat\<close> returns a response of at least 9 bytes, the
  method returns the bytes at offsets 1, 2 and 3 as the version triple, followed by the
  bytes at offsets 4 to 8 in the order on/off, door, disk, filter, calibration LED. A
  response carrying \<open>1, 2, 3, 0x0F, 0x01, 0x02, 0x03, 0x01\<close> at offsets 1 to 8 gives
  exactly \<open>((1, 2, 3), 0x0F, 0x01, 0x02, 0x03, 0x01)\<close>.
\<close>

theorem getFullStat_fields:
  assumes "sendCommand env self FULLSTAT 0 16 100 = Some (Inr res, self')"
    and "9 \<le> length res"
  shows "getFullStat env self =
           Some (Inr ((res ! 1, res ! 2, res ! 3), res ! 4, res ! 5, res ! 6, res ! 7, res ! 8), self')
         \<and> ((\<exists>b0 rest. res = b0 # 1 # 2 # 3 # 0x0F # 0x01 # 0x02 # 0x03 # 0x01 # rest) \<longrightarrow>
              getFullStat env self = Some (Inr ((1, 2, 3), 0x0F, 0x01, 0x02, 0x03, 0x01), self'))"
proof -
  from assms(2) have lens: "1 < length res" "2 < length res" "3 < length res" "4 < length res"
    "5 < length res" "6 < length res" "7 < length res" "8 < length res"
    by simp_all
  have run: "getFullStat env self =
      Some (Inr ((res ! 1, res ! 2, res ! 3), res ! 4, res ! 5, res ! 6, res ! 7, res ! 8), self')"
    using lens
    by (simp add: getFullStat_def assms(1) then_py_def bind_py_def py_getitem_1 py_getitem_numeral)
  have "getFullStat env self = Some (Inr ((1, 2, 3), 0x0F, 0x01, 0x02, 0x03, 0x01), self')"
    if "res = b0 # 1 # 2 # 3 # 0x0F # 0x01 # 0x02 # 0x03 # 0x01 # rest" for b0 rest
    unfolding run by (simp add: that)
  with run show ?thesis by blast
qed

theorem getFullStat_fields_witness:
  "sendCommand (script_env (Inr 16) (Inr [0, 1, 2, 3, 0x0F, 0x01, 0x02, 0x03, 0x01, 0, 0, 0, 0, 0, 0, 0]))
       opened FULLSTAT 0 16 100 =
     Some (Inr [0, 1, 2, 3, 0x0F, 0x01, 0x02, 0x03, 0x01, 0, 0, 0, 0, 0, 0, 0],
           \<lparr>hiddevice = Some [Write (record16 0x1F 0), Read 16 100], lock = Some False\<rparr>)
   \<and> 9 \<le> length [0, 1, 2, 3, 0x0F, 0x01, 0x02, 0x03, 0x01, 0, 0, 0, 0, 0, 0, 0 :: int]
   \<and> getFullStat (script_env (Inr 16) (Inr [0, 1, 2, 3, 0x0F, 0x01, 0x02, 0x03, 0x01, 0, 0, 0, 0, 0, 0, 0]))
       opened =
       Some (Inr ((1, 2, 3), 0x0F, 0x01, 0x02, 0x03, 0x01),
             \<lparr>hiddevice = Some [Write (record16 0x1F 0), Read 16 100], lock = Some False\<rparr>)"
proof -
  let ?res = "[0, 1, 2, 3, 0x0F, 0x01, 0x02, 0x03, 0x01, 0, 0, 0, 0, 0, 0, 0 :: int]"
  let ?after = "\<lparr>hiddevice = Some [Write (record16 0x1F 0), Read 16 100], lock = Some False\<rparr>"
  have tx: "sendCommand (script_env (Inr 16) (Inr ?res)) opened FULLSTAT 0 16 100 =
      Some (Inr ?res, ?after)"
    by (simp add: sendCommand_script_opened FULLSTAT_def)
  have len: "9 \<le> length ?res" by simp
  from getFullStat_fields [OF tx len]
  have "getFullStat (script_env (Inr 16) (Inr ?res)) opened =
      Some (Inr ((?res ! 1, ?res ! 2, ?res ! 3), ?res ! 4, ?res ! 5, ?res ! 6, ?res ! 7, ?res ! 8), ?after)"
    by (rule conjunct1)
  then have "getFullStat (script_env (Inr 16) (Inr ?res)) opened =
      Some (Inr ((1, 2, 3), 0x0F, 0x01, 0x02, 0x03, 0x01), ?after)"
    by simp
  with tx len show ?thesis by blast
qed

text \<open>
  C9. Called with the lock free and \<open>maxLength\<close> below 3, \<open>sendCommand\<close> raises
  \<open>IndexError\<close> while building the record: at offset 1 when the length is below 2, at
  offset 2 when it is 2. The Controller is left as it was: nothing was called on the
  handle and the lock is free again.
\<close>

theorem sendCommand_short_length:
  assumes "lock self = Some False" and "maxLength < 3"
  shows "sendCommand env self command param maxLength timeoutMs = Some (Inl IndexError, self)
         \<and> (maxLength < 2 \<longrightarrow> py_setitem (py_repeat 0x00 maxLength) 1 command = Inl IndexError)
         \<and> (maxLength = 2 \<longrightarrow>
               py_setitem (py_repeat 0x00 maxLength) 1 command = Inr [0, command]
               \<and> py_setitem [0, command] 2 param = Inl IndexError)"
proof -
  from assms(2) have "sendCommand_buffer command param maxLength = Inl IndexError"
    by (simp add: sendCommand_buffer_eq)
  with assms(1) have "sendCommand env self command param maxLength timeoutMs = Some (Inl IndexError, self)"
    by (rule sendCommand_bad_length)
  moreover have "maxLength < 2 \<longrightarrow> py_setitem (py_repeat 0x00 maxLength) 1 command = Inl IndexError"
    by (simp add: py_setitem_def py_repeat_def)
  moreover have "maxLength = 2 \<longrightarrow>
               py_setitem (py_repeat 0x00 maxLength) 1 command = Inr [0, command]
               \<and> py_setitem [0, command] 2 param = Inl IndexError"
    by (simp add: py_setitem_def py_repeat_def eval_nat_numeral)
  ultimately show ?thesis by blast
qed

theorem sendCommand_short_length_witness:
  "lock opened = Some False \<and> (2::int) < 3
   \<and> sendCommand (script_env (Inr 16) (Inr [])) opened 0x12 0 2 100 = Some (Inl IndexError, opened)
   \<and> hiddevice opened = Some []"
proof -
  have l: "lock opened = Some False" by (simp add: opened_def)
  have n: "(2::int) < 3" by simp
  from sendCommand_short_length [OF l n, of "script_env (Inr 16) (Inr [])" "0x12" 0 100]
  have "sendCommand (script_env (Inr 16) (Inr [])) opened 0x12 0 2 100 = Some (Inl IndexError, opened)"
    by (rule conjunct1)
  with l n show ?thesis by (simp add: opened_def)
qed

lemma then_py_Some: "m = Some (r, s) \<Longrightarrow> then_py m f = Some (bind_py r f, s)"
  by (simp add: then_py_def)

lemma bind_py_Inr: "bind_py (Inr x) f = f x"
  by (simp add: bind_py_def)

lemma status_byte_short:
  assumes "m = Some (Inr res, s)" and "length res < 2"
  shows "then_py m (\<lambda>res. py_getitem res 1) = Some (Inl IndexError, s)"
  using assms(2) by (simp add: then_py_Some [OF assms(1)] bind_py_Inr py_getitem_1)

lemma getOnOff_short:
  "sendCommand env self GETONOFF 0 16 100 = Some (Inr res, self') \<Longrightarrow> length res < 2 \<Longrightarrow>
   getOnOff env self = Some (Inl IndexError, self')"
  unfolding getOnOff_def by (rule status_byte_short)

lemma getDiskPosition_short:
  "sendCommand env self GETDISK 0 16 100 = Some (Inr res, self') \<Longrightarrow> length res < 2 \<Longrightarrow>
   getDiskPosition env self = Some (Inl IndexError, self')"
  unfolding getDiskPosition_def by (rule status_byte_short)

lemma getFilterPosition_short:
  "sendCommand env self GETFILT 0 16 100 = Some (Inr res, self') \<Longrightarrow> length res < 2 \<Longrightarrow>
   getFilterPosition env self = Some (Inl IndexError, self')"
  unfolding getFilterPosition_def by (rule status_byte_short)

lemma getCalibrationLED_short:
  "sendCommand env self GETCAL 0 16 100 = Some (Inr res, self') \<Longrightarrow> length res < 2 \<Longrightarrow>
   getCalibrationLED env self = Some (Inl IndexError, self')"
  unfolding getCalibrationLED_def by (rule status_byte_short)

lemma getDoor_short:
  "sendCommand env self GETDOOR 0 16 100 = Some (Inr res, self') \<Longrightarrow> length res < 2 \<Longrightarrow>
   getDoor env self = Some (Inl IndexError, self')"
  unfolding getDoor_def by (rule status_byte_short)

lemma getSerialNumber_short:
  assumes "sendCommand env self GETSERIAL 0 16 100 = Some (Inr res, self')" and "length res < 5"
  shows "getSerialNumber env self = Some (Inl IndexError, self')"
  using assms(2)
  by (simp add: getSerialNumber_def then_py_Some [OF assms(1)] bind_py_Inr py_getitem_numeral)
    (simp add: bind_py_def)

lemma getVersion_short:
  assumes "sendCommand env self GETVERSION 0 16 100 = Some (Inr res, self')" and "length res < 4"
  shows "getVersion env self = Some (Inl IndexError, self')"
  using assms(2)
  by (simp add: getVersion_def then_py_Some [OF assms(1)] bind_py_def py_getitem_1
      py_getitem_numeral)

lemma getFullStat_short:
  assumes "sendCommand env self FULLSTAT 0 16 100 = Some (Inr res, self')" and "length res < 9"
  shows "getFullStat env self = Some (Inl IndexError, self')"
  using assms(2)
  by (simp add: getFullStat_def then_py_Some [OF assms(1)] bind_py_def py_getitem_1
      py_getitem_numeral)

lemma discard_answer:
  "m = Some (Inr res, s) \<Longrightarrow> then_py m (\<lambda>_. Inr ()) = Some (Inr (), s)"
  by (simp add: then_py_def bind_py_def)

text \<open>
  C7. The module defines no \<open>MalformedResponse\<close>: a response shorter than an accessor
  needs makes the accessor raise Python's \<open>IndexError\<close>, from the first out-of-range
  index of its \<^verbatim>\<open>return\<close> expression, and no value is returned. This holds for
  \<open>getFullStat\<close> below 9 bytes, \<open>getSerialNumber\<close> below 5, \<open>getVersion\<close> below 4 and the
  five status accessors below 2.
\<close>

theorem short_response_IndexError:
  "(sendCommand env self FULLSTAT 0 16 100 = Some (Inr res, self') \<and> length res < 9 \<longrightarrow>
      getFullStat env self = Some (Inl IndexError, self'))
   \<and> (sendCommand env self GETSERIAL 0 16 100 = Some (Inr res, self') \<and> length res < 5 \<longrightarrow>
      getSerialNumber env self = Some (Inl IndexError, self'))
   \<and> (sendCommand env self GETVERSION 0 16 100 = Some (Inr res, self') \<and> length res < 4 \<longrightarrow>
      getVersion env self = Some (Inl IndexError, self'))
   \<and> (sendCommand env self GETONOFF 0 16 100 = Some (Inr res, self') \<and> length res < 2 \<longrightarrow>
      getOnOff env self = Some (Inl IndexError, self'))
   \<and> (sendCommand env self GETDISK 0 16 100 = Some (Inr res, self') \<and> length res < 2 \<longrightarrow>
      getDiskPosition env self = Some (Inl IndexError, self'))
   \<and> (sendCommand env self GETFILT 0 16 100 = Some (Inr res, self') \<and> length res < 2 \<longrightarrow>
      getFilterPosition env self = Some (Inl IndexError, self'))
   \<and> (sendCommand env self GETCAL 0 16 100 = Some (Inr res, self') \<and> length res < 2 \<longrightarrow>
      getCalibrationLED env self = Some (Inl IndexError, self'))
   \<and> (sendCommand env self GETDOOR 0 16 100 = Some (Inr res, self') \<and> length res < 2 \<longrightarrow>
      getDoor env self = Some (Inl IndexError, self'))"
  by (intro conjI impI; elim conjE)
    (erule getFullStat_short getSerialNumber_short getVersion_short getOnOff_short
      getDiskPosition_short getFilterPosition_short getCalibrationLED_short getDoor_short,
      assumption)+

theorem short_response_IndexError_witness:
  "sendCommand (script_env (Inr 16) (Inr [0])) opened FULLSTAT 0 16 100 =
     Some (Inr [0], \<lparr>hiddevice = Some [Write (record16 0x1F 0), Read 16 100], lock = Some False\<rparr>)
   \<and> length [0 :: int] < 9
   \<and> getFullStat (script_env (Inr 16) (Inr [0])) opened =
       Some (Inl IndexError,
             \<lparr>hiddevice = Some [Write (record16 0x1F 0), Read 16 100], lock = Some False\<rparr>)"
proof -
  let ?after = "\<lparr>hiddevice = Some [Write (record16 0x1F 0), Read 16 100], lock = Some False\<rparr>"
  have tx: "sendCommand (script_env (Inr 16) (Inr [0])) opened FULLSTAT 0 16 100 =
      Some (Inr [0], ?after)"
    by (simp add: sendCommand_script_opened FULLSTAT_def)
  have len: "length [0 :: int] < 9" by simp
  from short_response_IndexError [of "script_env (Inr 16) (Inr [0])" opened "[0]" ?after]
  have "sendCommand (script_env (Inr 16) (Inr [0])) opened FULLSTAT 0 16 100 = Some (Inr [0], ?after)
      \<and> length [0 :: int] < 9 \<longrightarrow>
      getFullStat (script_env (Inr 16) (Inr [0])) opened = Some (Inl IndexError, ?after)"
    by (rule conjunct1)
  with tx len show ?thesis by blast
qed

text \<open>
  C7, as the specification states it, fails: on a 1-byte response \<open>getFullStat\<close> raises
  the \<open>IndexError\<close> of the out-of-range index \<^verbatim>\<open>res[1]\<close>.
\<close>

theorem getFullStat_one_byte_counterexample:
  "getFullStat (script_env (Inr 16) (Inr [0])) opened =
     Some (Inl IndexError,
           \<lparr>hiddevice = Some [Write (record16 0x1F 0), Read 16 100], lock = Some False\<rparr>)
   \<and> py_getitem [0 :: int] 1 = Inl IndexError"
  by (simp add: getFullStat_def then_py_def sendCommand_script_opened bind_py_def py_getitem_1
      FULLSTAT_def)

text \<open>
  C10. Whatever list the transaction returns, the empty list included, each of the five
  set accessors returns \<^verbatim>\<open>None\<close> without reading it; each get accessor raises
  \<open>IndexError\<close> when the transaction returns fewer than 2 bytes.
\<close>

theorem set_discards_get_indexes:
  "(sendCommand env self SETONOFF RUN 16 100 = Some (Inr res, self') \<longrightarrow>
      switchOn env self = Some (Inr (), self'))
   \<and> (sendCommand env self SETONOFF SLEEP 16 100 = Some (Inr res, self') \<longrightarrow>
      switchOff env self = Some (Inr (), self'))
   \<and> (sendCommand env self SETDISK v 16 100 = Some (Inr res, self') \<longrightarrow>
      setDiskPosition env self v = Some (Inr (), self'))
   \<and> (sendCommand env self SETFILT v 16 100 = Some (Inr res, self') \<longrightarrow>
      setFilterPosition env self v = Some (Inr (), self'))
   \<and> (sendCommand env self SETCAL v 16 100 = Some (Inr res, self') \<longrightarrow>
      setCalibrationLED env self v = Some (Inr (), self'))
   \<and> (sendCommand env self GETONOFF 0 16 100 = Some (Inr res, self') \<and> length res < 2 \<longrightarrow>
      getOnOff env self = Some (Inl IndexError, self'))
   \<and> (sendCommand env self GETDISK 0 16 100 = Some (Inr res, self') \<and> length res < 2 \<longrightarrow>
      getDiskPosition env self = Some (Inl IndexError, self'))
   \<and> (sendCommand env self GETFILT 0 16 100 = Some (Inr res, self') \<and> length res < 2 \<longrightarrow>
      getFilterPosition env self = Some (Inl IndexError, self'))
   \<and> (sendCommand env self GETCAL 0 16 100 = Some (Inr res, self') \<and> length res < 2 \<longrightarrow>
      getCalibrationLED env self = Some (Inl IndexError, self'))
   \<and> (sendCommand env self GETDOOR 0 16 100 = Some (Inr res, self') \<and> length res < 2 \<longrightarrow>
      getDoor env self = Some (Inl IndexError, self'))
   \<and> (sendCommand env self GETSERIAL 0 16 100 = Some (Inr res, self') \<and> length res < 2 \<longrightarrow>
      getSerialNumber env self = Some (Inl IndexError, self'))
   \<and> (sendCommand env self FULLSTAT 0 16 100 = Some (Inr res, self') \<and> length res < 2 \<longrightarrow>
      getFullStat env self = Some (Inl IndexError, self'))
   \<and> (sendCommand env self GETVERSION 0 16 100 = Some (Inr res, self') \<and> length res < 2 \<longrightarrow>
      getVersion env self = Some (Inl IndexError, self'))"
proof -
  have short: "length res < 5" "length res < 9" "length res < 4" if "length res < 2"
    using that by simp_all
  show ?thesis
    unfolding switchOn_def switchOff_def setDiskPosition_def setFilterPosition_def
      setCalibrationLED_def
    by (intro conjI impI; (elim conjE)?)
      (erule discard_answer
        | (erule getOnOff_short getDiskPosition_short getFilterPosition_short
             getCalibrationLED_short getDoor_short, assumption)
        | (erule getSerialNumber_short getFullStat_short getVersion_short, erule short))+
qed

theorem set_discards_get_indexes_witness:
  "sendCommand (script_env (Inr 16) (Inr [])) opened SETONOFF RUN 16 100 =
     Some (Inr [], \<lparr>hiddevice = Some [Write (record16 0x21 0x0F), Read 16 100], lock = Some False\<rparr>)
   \<and> switchOn (script_env (Inr 16) (Inr [])) opened =
       Some (Inr (), \<lparr>hiddevice = Some [Write (record16 0x21 0x0F), Read 16 100], lock = Some False\<rparr>)
   \<and> sendCommand (script_env (Inr 16) (Inr [])) opened GETONOFF 0 16 100 =
       Some (Inr [], \<lparr>hiddevice = Some [Write (record16 0x12 0), Read 16 100], lock = Some False\<rparr>)
   \<and> length ([] :: int list) < 2
   \<and> getOnOff (script_env (Inr 16) (Inr [])) opened =
       Some (Inl IndexError,
             \<lparr>hiddevice = Some [Write (record16 0x12 0), Read 16 100], lock = Some False\<rparr>)"
proof -
  let ?env = "script_env (Inr 16) (Inr [])"
  let ?set = "\<lparr>hiddevice = Some [Write (record16 0x21 0x0F), Read 16 100], lock = Some False\<rparr>"
  let ?get = "\<lparr>hiddevice = Some [Write (record16 0x12 0), Read 16 100], lock = Some False\<rparr>"
  have tx1: "sendCommand ?env opened SETONOFF RUN 16 100 = Some (Inr [], ?set)"
    by (simp add: sendCommand_script_opened SETONOFF_def RUN_def)
  have tx2: "sendCommand ?env opened GETONOFF 0 16 100 = Some (Inr [], ?get)"
    by (simp add: sendCommand_script_opened GETONOFF_def)
  have len: "length ([] :: int list) < 2" by simp
  from set_discards_get_indexes [of ?env opened "[]" ?set]
  have "sendCommand ?env opened SETONOFF RUN 16 100 = Some (Inr [], ?set) \<longrightarrow>
      switchOn ?env opened = Some (Inr (), ?set)"
    by (rule conjunct1)
  with tx1 have a: "switchOn ?env opened = Some (Inr (), ?set)" by blast
  from set_discards_get_indexes [of ?env opened "[]" ?get]
  have "sendCommand ?env opened GETONOFF 0 16 100 = Some (Inr [], ?get) \<and> length ([] :: int list) < 2
      \<longrightarrow> getOnOff ?env opened = Some (Inl IndexError, ?get)"
    by blast
  with tx2 len have b: "getOnOff ?env opened = Some (Inl IndexError, ?get)" by blast
  from tx1 a tx2 len b show ?thesis by blast
qed

lemma sendCommand_releases:
  assumes "lock self = Some False"
  shows "\<exists>r self'. sendCommand env self command param maxLength timeoutMs = Some (r, self')
           \<and> lock self' = Some False"
proof (cases "sendCommand_locked env (self\<lparr>lock := Some True\<rparr>) command param maxLength timeoutMs")
  case (Pair r s)
  with assms show ?thesis by (simp add: sendCommand_def)
qed

lemma sendCommand_not_blocked:
  "lock self = Some False \<Longrightarrow> sendCommand env self command param maxLength timeoutMs \<noteq> None"
  using sendCommand_releases [of self env command param maxLength timeoutMs] by auto

text \<open>
  C5. \<open>sendCommand\<close> has no timeout error of its own and does not look at the length of
  what \<open>read\<close> gives. Called with the lock free it always returns or raises, and once
  \<open>write\<close> has returned, its outcome is exactly the outcome of the handle's \<open>read\<close>: an
  empty or short list is returned as the result, an exception of \<open>read\<close> is raised
  unchanged. In every case the lock is free afterwards, so a later \<open>sendCommand\<close> does
  not wait.
\<close>

theorem sendCommand_passes_read_on:
  assumes "lock self = Some False"
  shows "\<exists>r self'. sendCommand env self command param maxLength timeoutMs = Some (r, self')
           \<and> lock self' = Some False
           \<and> sendCommand env2 self' command2 param2 maxLength2 timeoutMs2 \<noteq> None
           \<and> (\<forall>h buffer k. hiddevice self = Some h
                 \<and> sendCommand_buffer command param maxLength = Inr buffer
                 \<and> on_write env (h @ [Write buffer]) = Inr k \<longrightarrow>
                 r = on_read env (h @ [Write buffer, Read maxLength timeoutMs]))"
proof -
  from sendCommand_releases [OF assms]
  obtain r self' where run: "sendCommand env self command param maxLength timeoutMs = Some (r, self')"
    and free: "lock self' = Some False" by blast
  from free have next_call: "sendCommand env2 self' command2 param2 maxLength2 timeoutMs2 \<noteq> None"
    by (rule sendCommand_not_blocked)
  have "r = on_read env (h @ [Write buffer, Read maxLength timeoutMs])"
    if "hiddevice self = Some h" and "sendCommand_buffer command param maxLength = Inr buffer"
      and "on_write env (h @ [Write buffer]) = Inr k" for h buffer k
    using run sendCommand_unlocked [OF assms that(1) that(2), of env timeoutMs] that(3) by simp
  with run free next_call show ?thesis by blast
qed

theorem sendCommand_passes_read_on_witness:
  "lock opened = Some False
   \<and> sendCommand (script_env (Inr 16) (Inr [])) opened GETONOFF 0 16 100 =
       Some (Inr [], \<lparr>hiddevice = Some [Write (record16 0x12 0), Read 16 100], lock = Some False\<rparr>)
   \<and> sendCommand (script_env (Inr 16) (Inr [])) 
         \<lparr>hiddevice = Some [Write (record16 0x12 0), Read 16 100], lock = Some False\<rparr>
         GETONOFF 0 16 100 \<noteq> None"
proof -
  let ?env = "script_env (Inr 16) (Inr [])"
  let ?after = "\<lparr>hiddevice = Some [Write (record16 0x12 0), Read 16 100], lock = Some False\<rparr>"
  have l: "lock opened = Some False" by (simp add: opened_def)
  have tx: "sendCommand ?env opened GETONOFF 0 16 100 = Some (Inr [], ?after)"
    by (simp add: sendCommand_script_opened GETONOFF_def)
  from sendCommand_passes_read_on [OF l, of ?env GETONOFF 0 16 100 ?env GETONOFF 0 16 100]
  obtain r self' where run: "sendCommand ?env opened GETONOFF 0 16 100 = Some (r, self')"
    and nxt: "sendCommand ?env self' GETONOFF 0 16 100 \<noteq> None" by blast
  from run tx have "self' = ?after" by simp
  with nxt l tx show ?thesis by simp
qed

text \<open>
  C5, as the specification states it, fails: when \<open>read\<close> comes back with nothing (the
  empty list), \<open>sendCommand\<close> returns the empty list and raises nothing.
\<close>

theorem sendCommand_timeout_counterexample:
  "sendCommand (script_env (Inr 16) (Inr [])) opened GETONOFF 0 16 100 =
     Some (Inr [], \<lparr>hiddevice = Some [Write (record16 0x12 0), Read 16 100], lock = Some False\<rparr>)"
  by (simp add: sendCommand_script_opened GETONOFF_def)

text \<open>
  C8. The value \<open>write\<close> returns is never inspected. Whatever integer it is, a failure
  code or a short count included, \<open>sendCommand\<close> goes on to \<open>read\<close> and its outcome is
  that of \<open>read\<close>. Only when \<open>write\<close> raises is \<open>read\<close> not called, and the exception
  raised is the one \<open>write\<close> raised.
\<close>

theorem sendCommand_ignores_write_result:
  assumes "lock self = Some False" and "hiddevice self = Some h"
    and "sendCommand_buffer command param maxLength = Inr buffer"
  shows "(\<forall>k. on_write env (h @ [Write buffer]) = Inr k \<longrightarrow>
            sendCommand env self command param maxLength timeoutMs =
              Some (on_read env (h @ [Write buffer, Read maxLength timeoutMs]),
                    self\<lparr>hiddevice := Some (h @ [Write buffer, Read maxLength timeoutMs])\<rparr>))
         \<and> (\<forall>e. on_write env (h @ [Write buffer]) = Inl e \<longrightarrow>
            sendCommand env self command param maxLength timeoutMs =
              Some (Inl e, self\<lparr>hiddevice := Some (h @ [Write buffer])\<rparr>))"
  by (simp add: sendCommand_unlocked [OF assms])

theorem sendCommand_ignores_write_result_witness:
  "lock opened = Some False \<and> hiddevice opened = Some []
   \<and> sendCommand_buffer GETONOFF 0 16 = Inr (record16 GETONOFF 0)
   \<and> on_write (script_env (Inr (- 1)) (Inr [0, 0x0F])) ([] @ [Write (record16 GETONOFF 0)]) = Inr (- 1)
   \<and> sendCommand (script_env (Inr (- 1)) (Inr [0, 0x0F])) opened GETONOFF 0 16 100 =
       Some (Inr [0, 0x0F],
             \<lparr>hiddevice = Some [Write (record16 GETONOFF 0), Read 16 100], lock = Some False\<rparr>)"
proof -
  let ?env = "script_env (Inr (- 1)) (Inr [0, 0x0F])"
  have l: "lock opened = Some False" and d: "hiddevice opened = Some []"
    by (simp_all add: opened_def)
  have b: "sendCommand_buffer GETONOFF 0 16 = Inr (record16 GETONOFF 0)"
    by (rule sendCommand_buffer_16)
  have w: "on_write ?env ([] @ [Write (record16 GETONOFF 0)]) = Inr (- 1)"
    by (simp add: script_env_def)
  from sendCommand_ignores_write_result [OF l d b, of ?env 100] w
  have "sendCommand ?env opened GETONOFF 0 16 100 =
      Some (on_read ?env ([] @ [Write (record16 GETONOFF 0), Read 16 100]),
            opened\<lparr>hiddevice := Some ([] @ [Write (record16 GETONOFF 0), Read 16 100])\<rparr>)"
    by blast
  then have "sendCommand ?env opened GETONOFF 0 16 100 =
      Some (Inr [0, 0x0F],
            \<lparr>hiddevice = Some [Write (record16 GETONOFF 0), Read 16 100], lock = Some False\<rparr>)"
    by (simp add: script_env_def opened_def)
  with l d b w show ?thesis by blast
qed

text \<open>
  C8, as the specification states it, fails: with a \<open>write\<close> that reports failure by
  returning \<open>-1\<close>, \<open>sendCommand\<close> still calls \<open>read\<close> and returns its answer.
\<close>

theorem sendCommand_failed_write_counterexample:
  "sendCommand (script_env (Inr (- 1)) (Inr [0, 0x0F])) opened GETONOFF 0 16 100 =
     Some (Inr [0, 0x0F],
           \<lparr>hiddevice = Some [Write (record16 0x12 0), Read 16 100], lock = Some False\<rparr>)"
  by (simp add: sendCommand_script_opened GETONOFF_def)

text \<open>
  C6. A Controller has no closed state and no \<open>SessionClosed\<close> error. \<^verbatim>\<open>__del__\<close> calls
  \<open>close\<close> on the handle every time it runs and changes nothing else. A \<open>sendCommand\<close>
  after it still builds the record and calls \<open>write\<close> on the handle; when that \<open>write\<close>
  raises, the call fails with the handle's exception, and when it returns, \<open>read\<close> is
  called as well and its outcome is the outcome of the call. Every accessor starts
  with such a \<open>sendCommand\<close> and so makes the same calls on the handle.
\<close>

theorem sendCommand_after_del:
  assumes "lock self = Some False" and "hiddevice self = Some h"
    and "sendCommand_buffer command param maxLength = Inr buffer"
  shows "Controller_del self = self\<lparr>hiddevice := Some (h @ [Close])\<rparr>
         \<and> Controller_del (Controller_del self) = self\<lparr>hiddevice := Some (h @ [Close, Close])\<rparr>
         \<and> (\<forall>e. on_write env (h @ [Close, Write buffer]) = Inl e \<longrightarrow>
              sendCommand env (Controller_del self) command param maxLength timeoutMs =
                Some (Inl e, self\<lparr>hiddevice := Some (h @ [Close, Write buffer])\<rparr>))
         \<and> (\<forall>k. on_write env (h @ [Close, Write buffer]) = Inr k \<longrightarrow>
              sendCommand env (Controller_del self) command param maxLength timeoutMs =
                Some (on_read env (h @ [Close, Write buffer, Read maxLength timeoutMs]),
                      self\<lparr>hiddevice := Some (h @ [Close, Write buffer, Read maxLength timeoutMs])\<rparr>))
         \<and> (\<forall>f. \<exists>r d. then_py (sendCommand env (Controller_del self) command param maxLength timeoutMs) f =
                Some (r, self\<lparr>hiddevice := Some (h @ Close # Write buffer # d)\<rparr>))"
proof -
  have del: "Controller_del self = self\<lparr>hiddevice := Some (h @ [Close])\<rparr>"
    by (simp add: Controller_del_def assms(2) hid_close_def)
  then have del2: "Controller_del (Controller_del self) = self\<lparr>hiddevice := Some (h @ [Close, Close])\<rparr>"
    by (simp add: Controller_del_def hid_close_def)
  have l: "lock (self\<lparr>hiddevice := Some (h @ [Close])\<rparr>) = Some False"
    and d: "hiddevice (self\<lparr>hiddevice := Some (h @ [Close])\<rparr>) = Some (h @ [Close])"
    using assms(1) by simp_all
  note run = sendCommand_unlocked [OF l d assms(3), of env timeoutMs]
  have raise: "\<forall>e. on_write env (h @ [Close, Write buffer]) = Inl e \<longrightarrow>
      sendCommand env (Controller_del self) command param maxLength timeoutMs =
        Some (Inl e, self\<lparr>hiddevice := Some (h @ [Close, Write buffer])\<rparr>)"
    by (simp add: del run)
  have ret: "\<forall>k. on_write env (h @ [Close, Write buffer]) = Inr k \<longrightarrow>
      sendCommand env (Controller_del self) command param maxLength timeoutMs =
        Some (on_read env (h @ [Close, Write buffer, Read maxLength timeoutMs]),
              self\<lparr>hiddevice := Some (h @ [Close, Write buffer, Read maxLength timeoutMs])\<rparr>)"
    by (simp add: del run)
  have acc: "\<exists>r d. then_py (sendCommand env (Controller_del self) command param maxLength timeoutMs) f =
      Some (r, self\<lparr>hiddevice := Some (h @ Close # Write buffer # d)\<rparr>)" for f
  proof (cases "on_write env (h @ [Close, Write buffer])")
    case (Inl e)
    with raise have "then_py (sendCommand env (Controller_del self) command param maxLength timeoutMs) f =
        Some (bind_py (Inl e) f, self\<lparr>hiddevice := Some (h @ Close # Write buffer # [])\<rparr>)"
      by (simp add: then_py_def)
    then show ?thesis by blast
  next
    case (Inr k)
    with ret have "then_py (sendCommand env (Controller_del self) command param maxLength timeoutMs) f =
        Some (bind_py (on_read env (h @ [Close, Write buffer, Read maxLength timeoutMs])) f,
              self\<lparr>hiddevice := Some (h @ Close # Write buffer # [Read maxLength timeoutMs])\<rparr>)"
      by (simp add: then_py_def)
    then show ?thesis by blast
  qed
  from del del2 raise ret acc show ?thesis by blast
qed

theorem sendCommand_after_del_witness:
  "lock opened = Some False \<and> hiddevice opened = Some []
   \<and> sendCommand_buffer GETONOFF 0 16 = Inr (record16 GETONOFF 0)
   \<and> Controller_del opened = \<lparr>hiddevice = Some [Close], lock = Some False\<rparr>
   \<and> Controller_del (Controller_del opened) = \<lparr>hiddevice = Some [Close, Close], lock = Some False\<rparr>
   \<and> sendCommand (script_env (Inr 16) (Inr [0, 0x0F])) (Controller_del opened) GETONOFF 0 16 100 =
       Some (Inl (HidError ''not open''),
             \<lparr>hiddevice = Some [Close, Write (record16 GETONOFF 0)], lock = Some False\<rparr>)"
proof -
  let ?env = "script_env (Inr 16) (Inr [0, 0x0F])"
  have l: "lock opened = Some False" and d: "hiddevice opened = Some []"
    by (simp_all add: opened_def)
  have b: "sendCommand_buffer GETONOFF 0 16 = Inr (record16 GETONOFF 0)"
    by (rule sendCommand_buffer_16)
  note after = sendCommand_after_del [OF l d b, of ?env 100]
  have w: "on_write ?env ([] @ [Close, Write (record16 GETONOFF 0)]) = Inl (HidError ''not open'')"
    by (simp add: script_env_def)
  from after have "Controller_del opened = opened\<lparr>hiddevice := Some ([] @ [Close])\<rparr>"
    by (rule conjunct1)
  then have c1: "Controller_del opened = \<lparr>hiddevice = Some [Close], lock = Some False\<rparr>"
    by (simp add: opened_def)
  from after have "Controller_del (Controller_del opened) = opened\<lparr>hiddevice := Some ([] @ [Close, Close])\<rparr>"
    by blast
  then have c2: "Controller_del (Controller_del opened) =
      \<lparr>hiddevice = Some [Close, Close], lock = Some False\<rparr>"
    by (simp add: opened_def)
  from after w have "sendCommand ?env (Controller_del opened) GETONOFF 0 16 100 =
      Some (Inl (HidError ''not open''), opened\<lparr>hiddevice := Some ([] @ [Close, Write (record16 GETONOFF 0)])\<rparr>)"
    by blast
  then have c3: "sendCommand ?env (Controller_del opened) GETONOFF 0 16 100 =
      Some (Inl (HidError ''not open''),
            \<lparr>hiddevice = Some [Close, Write (record16 GETONOFF 0)], lock = Some False\<rparr>)"
    by (simp add: opened_def)
  from l d b c1 c2 c3 show ?thesis by blast
qed

text \<open>
  C6, as the specification states it, fails: after \<^verbatim>\<open>__del__\<close>, \<open>getOnOff\<close> does call
  \<open>write\<close> on the handle, and fails with the handle's own exception.
\<close>

theorem getOnOff_after_del_counterexample:
  "getOnOff (script_env (Inr 16) (Inr [0, 0x0F])) (Controller_del opened) =
     Some (Inl (HidError ''not open''),
           \<lparr>hiddevice = Some [Close, Write (record16 0x12 0)], lock = Some False\<rparr>)"
  by (simp add: getOnOff_def then_py_def bind_py_def sendCommand_def sendCommand_locked_def
      sendCommand_buffer_16 hid_write_def hid_read_def hid_close_def Controller_del_def
      opened_def script_env_def GETONOFF_def)

end
